theory Spec2Isabelle
  imports Main
begin

chapter \<open>The code as functions\<close>

section \<open>Separator constraints\<close>

text \<open>
  A separator constraint object \<open>{min, max, a, b}\<close>. A property that is
  \<open>undefined\<close> in the JavaScript object is \<open>None\<close>; the newline counts are
  integers. The fields \<open>a\<close> and \<open>b\<close> hold the constraint objects of the two
  nodes the separator lies between.
\<close>

record 'c constraints =
  cmin :: "int option"
  cmax :: "int option"
  ca :: "'c option"
  cb :: "'c option"

text \<open>\<open>x || 0\<close> on a number or \<open>undefined\<close>.\<close>

definition or_zero :: "int option \<Rightarrow> int" where
  "or_zero x = (case x of None \<Rightarrow> 0 | Some v \<Rightarrow> v)"

text \<open>\<open>x !== undefined ? x : 2\<close>.\<close>

definition or_two :: "int option \<Rightarrow> int" where
  "or_two x = (case x of None \<Rightarrow> 2 | Some v \<Rightarrow> v)"

text \<open>
  \<open>WSP.mergeConstraints\<close>. The result is the merged object together with the
  lines written to \<open>console.error\<close> (one entry per call of \<open>console.error\<close>,
  holding the \<open>res\<close> it prints).
\<close>

datatype 'c logline = Incompatible_merge "int \<times> int" "'c constraints" "'c constraints"

definition mergeConstraints ::
  "'c constraints \<Rightarrow> 'c constraints \<Rightarrow> 'c constraints \<times> 'c logline list" where
  "mergeConstraints oldConstraints newConstraints =
    (let res_min = max (or_zero (cmin oldConstraints)) (or_zero (cmin newConstraints));
         res_max = min (or_two (cmax oldConstraints)) (or_two (cmax newConstraints))
     in if res_min > res_max then
          (let (res_min1, res_max1) =
                 (if (case cmax newConstraints of None \<Rightarrow> False | Some m \<Rightarrow> m > res_min)
                  then (res_min, or_two (cmax newConstraints))
                  else if (case cmin newConstraints of
                             None \<Rightarrow> False
                           | Some m \<Rightarrow> m \<noteq> 0 \<and> m < res_min)
                  then (or_zero (cmin newConstraints), res_max)
                  else (res_min, res_max));
               res_max2 = res_min1
           in (\<lparr>cmin = Some res_min1, cmax = Some res_max2,
                ca = ca oldConstraints, cb = cb newConstraints\<rparr>,
               [Incompatible_merge (res_min1, res_max2) oldConstraints newConstraints]))
        else (\<lparr>cmin = Some res_min, cmax = Some res_max,
               ca = ca oldConstraints, cb = cb newConstraints\<rparr>, []))"

text \<open>The two quantities the merge starts from: the larger of the two minima and the
  smaller of the two maxima, with the defaults 0 and 2.\<close>

definition merged_min :: "'c constraints \<Rightarrow> 'c constraints \<Rightarrow> int" where
  "merged_min old new = max (or_zero (cmin old)) (or_zero (cmin new))"

definition merged_max :: "'c constraints \<Rightarrow> 'c constraints \<Rightarrow> int" where
  "merged_max old new = min (or_two (cmax old)) (or_two (cmax new))"

section \<open>Regular expressions as the code uses them\<close>

text \<open>
  The serializer decides most of its cases with JavaScript regular expressions. They are
  modelled by a backtracking matcher in the style of the language definition: matching a
  pattern at position \<open>i\<close> of a string yields the end positions of all its matches,
  in the order in which backtracking tries them. Strings are lists of 8-bit characters;
  code units above \<open>0xFF\<close> are outside the model.
\<close>

datatype rx =
    Eps
  | Sym "char \<Rightarrow> bool"
  | Seq rx rx
  | Alt rx rx
  | Star rx
  | LazyStar rx
  | NotAhead rx
  | Bol
  | Eol
  | WordB

text \<open>
  A quantified group repeats while each round consumes input (a round that matches
  the empty string is rejected). The greedy form tries another round before stopping, the lazy form
  stops first. The bound is the number of characters left.
\<close>

fun repeat_greedy :: "(nat \<Rightarrow> nat list) \<Rightarrow> nat \<Rightarrow> nat \<Rightarrow> nat list" where
  "repeat_greedy m 0 i = [i]"
| "repeat_greedy m (Suc n) i =
     concat (map (repeat_greedy m n) (filter (\<lambda>j. i < j) (m i))) @ [i]"

fun repeat_lazy :: "(nat \<Rightarrow> nat list) \<Rightarrow> nat \<Rightarrow> nat \<Rightarrow> nat list" where
  "repeat_lazy m 0 i = [i]"
| "repeat_lazy m (Suc n) i =
     i # concat (map (repeat_lazy m n) (filter (\<lambda>j. i < j) (m i)))"

text \<open>\<open>\w\<close>: letters, digits and the underscore.\<close>

definition is_word_char :: "char \<Rightarrow> bool" where
  "is_word_char c \<longleftrightarrow>
     (let n = (of_char c :: nat) in
      (97 \<le> n \<and> n \<le> 122) \<or> (65 \<le> n \<and> n \<le> 90) \<or> (48 \<le> n \<and> n \<le> 57) \<or> n = 95)"

definition word_at :: "string \<Rightarrow> nat \<Rightarrow> bool" where
  "word_at s i \<longleftrightarrow> i < length s \<and> is_word_char (s ! i)"

primrec ms :: "rx \<Rightarrow> string \<Rightarrow> nat \<Rightarrow> nat list" where
  "ms Eps s i = [i]"
| "ms (Sym p) s i = (if i < length s \<and> p (s ! i) then [Suc i] else [])"
| "ms (Seq a b) s i = concat (map (ms b s) (ms a s i))"
| "ms (Alt a b) s i = ms a s i @ ms b s i"
| "ms (Star a) s i = repeat_greedy (ms a s) (length s - i) i"
| "ms (LazyStar a) s i = repeat_lazy (ms a s) (length s - i) i"
| "ms (NotAhead a) s i = (if ms a s i = [] then [i] else [])"
| "ms Bol s i = (if i = 0 then [i] else [])"
| "ms Eol s i = (if i = length s then [i] else [])"
| "ms WordB s i =
     (if (0 < i \<and> word_at s (i - 1)) \<noteq> word_at s i then [i] else [])"

text \<open>Pattern syntax built from the constructors.\<close>

definition lit :: "char \<Rightarrow> rx" where
  "lit c = Sym (\<lambda>x. x = c)"

definition one_of :: "string \<Rightarrow> rx" where
  "one_of cs = Sym (\<lambda>x. x \<in> set cs)"

definition none_of :: "string \<Rightarrow> rx" where
  "none_of cs = Sym (\<lambda>x. x \<notin> set cs)"

fun str :: "string \<Rightarrow> rx" where
  "str [] = Eps"
| "str (c # cs) = Seq (lit c) (str cs)"

definition Plus :: "rx \<Rightarrow> rx" where
  "Plus r = Seq r (Star r)"

definition Opt :: "rx \<Rightarrow> rx" where
  "Opt r = Alt r Eps"

text \<open>The characters \<open>\n\<close> and \<open>\r\<close>.\<close>

definition LF :: char where
  "LF = CHR 0x0A"

definition CR :: char where
  "CR = CHR 0x0D"

text \<open>\<open>\s\<close>: tab, line feed, vertical tab, form feed, carriage return, space and
  the no-break space (the white space of the 8-bit range).\<close>

definition is_space :: "char \<Rightarrow> bool" where
  "is_space c \<longleftrightarrow> (of_char c :: nat) \<in> {9, 10, 11, 12, 13, 32, 160}"

text \<open>\<open>.\<close>: any character but a line terminator.\<close>

definition dot :: rx where
  "dot = Sym (\<lambda>c. c \<noteq> LF \<and> c \<noteq> CR)"

text \<open>
  \<open>re.exec(s)\<close> without the \<open>g\<close> flag: the leftmost start position with a match,
  and the end of the first match found there. \<open>s.match(re)\<close> and \<open>re.test(s)\<close>
  used as conditions ask whether there is one.
\<close>

definition rx_exec :: "rx \<Rightarrow> string \<Rightarrow> (nat \<times> nat) option" where
  "rx_exec r s =
     (case filter (\<lambda>i. ms r s i \<noteq> []) [0 ..< Suc (length s)] of
        [] \<Rightarrow> None
      | i # _ \<Rightarrow> Some (i, hd (ms r s i)))"

definition rx_test :: "rx \<Rightarrow> string \<Rightarrow> bool" where
  "rx_test r s \<longleftrightarrow> rx_exec r s \<noteq> None"

text \<open>\<open>s.replace(re, rep)\<close> without the \<open>g\<close> flag, for a replacement text
  without \<open>$\<close> patterns: only the first match is replaced.\<close>

definition replace_first :: "rx \<Rightarrow> string \<Rightarrow> string \<Rightarrow> string" where
  "replace_first r rep s =
     (case rx_exec r s of
        None \<Rightarrow> s
      | Some (i, j) \<Rightarrow> take i s @ rep @ drop j s)"

section \<open>Comments\<close>

text \<open>\<open>commentWT\<close>: \<open>'<!--' + comment.replace(/-->/, '--&gt;') + '-->'\<close>.\<close>

definition commentWT :: "string \<Rightarrow> string" where
  "commentWT comment = ''<!--'' @ replace_first (str ''-->'') ''--&gt;'' comment @ ''-->''"


section \<open>Exceptions\<close>

text \<open>
  A JavaScript exception is a value: the \<open>TypeError\<close> raised by reading a property
  of \<open>null\<close> or \<open>undefined\<close>, or a value thrown by a \<open>throw\<close> statement.
  A function that can throw returns \<open>exn + 'a\<close>, with \<open>Inl\<close> for the exception.
\<close>

datatype exn = TypeError | Thrown string

section \<open>Template reconstruction\<close>

text \<open>\<open>Number.prototype.toString\<close> on a non-negative integer: its decimal digits.\<close>

definition digit_char :: "nat \<Rightarrow> char" where
  "digit_char n = ''0123456789'' ! n"

fun toString :: "nat \<Rightarrow> string" where
  "toString n =
     (if n < 10 then [digit_char n] else toString (n div 10) @ [digit_char (n mod 10)])"

declare toString.simps [simp del]

text \<open>
  An object used as a dictionary is the list of its own properties in the order in which
  \<open>Object.keys\<close> enumerates them; \<open>obj[k]\<close> is \<open>map_of obj k\<close>. The property
  names of an object are distinct.
\<close>

type_synonym 'v jsobject = "(string \<times> 'v) list"

definition Object_keys :: "'v jsobject \<Rightarrow> string list" where
  "Object_keys obj = map fst obj"

text \<open>\<open>WSP.escapeTplArgWT\<close> returns its argument.\<close>

definition escapeTplArgWT :: "string \<Rightarrow> string" where
  "escapeTplArgWT arg = arg"

text \<open>\<open>Array.prototype.join\<close> on an array of strings.\<close>

fun join :: "string \<Rightarrow> string list \<Rightarrow> string" where
  "join sep [] = []"
| "join sep [x] = x"
| "join sep (x # y # ys) = x @ sep @ join sep (y # ys)"

text \<open>
  A part of \<open>srcParts\<close> is either an object with a \<open>template\<close> property, of
  which the code reads \<open>target.wt\<close> and the \<open>wt\<close> of each entry of \<open>params\<close>,
  or plain wikitext.
\<close>

datatype part = Template (target_wt: string) (params: "string jsobject") | Plain string

text \<open>The loop \<open>for (var i = 0; i < n; i++)\<close> over the keys, filling \<open>argBuf\<close>.\<close>

function tplArgs ::
  "string jsobject \<Rightarrow> string list \<Rightarrow> nat \<Rightarrow> string list \<Rightarrow> exn + string list" where
  "tplArgs ps keys i argBuf =
     (if i < length keys then
        (let k = keys ! i in
         case map_of ps k of
           None \<Rightarrow> Inl TypeError
         | Some wt \<Rightarrow>
             (let v = escapeTplArgWT wt in
              if k = toString (i + 1) then tplArgs ps keys (i + 1) (argBuf @ [v])
              else tplArgs ps keys (i + 1) (argBuf @ [k @ ''='' @ v])))
      else Inr argBuf)"
  by pat_completeness auto
termination
  by (relation "measure (\<lambda>(ps, keys, i, argBuf). length keys - i)") auto

declare tplArgs.simps [simp del]

text \<open>The body of the function passed to \<open>srcParts.map\<close>, pushing onto \<open>buf\<close>.\<close>

fun buildPart :: "string list \<Rightarrow> part \<Rightarrow> exn + string list" where
  "buildPart buf (Template target ps) =
     (let buf1 = buf @ [''{{''];
          buf2 = buf1 @ [target];
          keys = Object_keys ps;
          n = length keys
      in if n > 0 then
           (case tplArgs ps keys 0 [] of
              Inl e \<Rightarrow> Inl e
            | Inr argBuf \<Rightarrow> Inr (buf2 @ [''|''] @ [join ''|'' argBuf] @ [''}}'']))
         else Inr (buf2 @ [''}}'']))"
| "buildPart buf (Plain wt) = Inr (buf @ [wt])"

fun buildParts :: "string list \<Rightarrow> part list \<Rightarrow> exn + string list" where
  "buildParts buf [] = Inr buf"
| "buildParts buf (p # ps) =
     (case buildPart buf p of Inl e \<Rightarrow> Inl e | Inr buf' \<Rightarrow> buildParts buf' ps)"

text \<open>\<open>WSP._buildTemplateWT\<close>: \<open>buf.join('')\<close> after the parts are processed.\<close>

definition buildTemplateWT :: "part list \<Rightarrow> exn + string" where
  "buildTemplateWT srcParts =
     (case buildParts [] srcParts of Inl e \<Rightarrow> Inl e | Inr buf \<Rightarrow> Inr (concat buf))"

text \<open>
  The template format in the words of the specification: an argument is the value alone
  when its key is the decimal form of its 1-based position, and \<open>key=value\<close>
  otherwise; a template is \<open>{{target}}\<close> without parameters and
  \<open>{{target|arg|...|arg}}\<close> with them; plain parts stand for themselves.
\<close>

definition spec_arg :: "nat \<Rightarrow> string \<times> string \<Rightarrow> string" where
  "spec_arg pos kv = (if fst kv = toString pos then snd kv else fst kv @ ''='' @ snd kv)"

fun spec_args :: "nat \<Rightarrow> (string \<times> string) list \<Rightarrow> string list" where
  "spec_args pos [] = []"
| "spec_args pos (kv # kvs) = spec_arg pos kv # spec_args (Suc pos) kvs"

fun spec_part :: "part \<Rightarrow> string" where
  "spec_part (Plain wt) = wt"
| "spec_part (Template target ps) =
     (if ps = [] then ''{{'' @ target @ ''}}''
      else ''{{'' @ target @ ''|'' @ join ''|'' (spec_args 1 ps) @ ''}}'')"

text \<open>A part is well formed when the keys of its parameter object are distinct.\<close>

fun wf_part :: "part \<Rightarrow> bool" where
  "wf_part (Plain wt) = True"
| "wf_part (Template target ps) = distinct (map fst ps)"


section \<open>Annotation rendering (\<open>ve.es.Content\<close>)\<close>



type_synonym ref = nat











section \<open>Stripping marker metas\<close>

text \<open>
  Of the node it is given, \<open>stripMarkerMetas\<close> reads the attributes \<open>typeof\<close> and
  \<open>property\<close> (\<open>getAttribute\<close> gives \<open>null\<close>, here \<open>None\<close>, for a missing
  attribute) and the next sibling. \<open>DU.deleteNode\<close>, which takes the node out of the
  DOM, is outside the source files at hand: the result records that it was called.
\<close>

record 'n meta_node =
  typeof_attr :: "string option"
  property_attr :: "string option"
  nextSibling :: "'n option"

text \<open>Either the node was deleted and its former next sibling is returned, or nothing
  was deleted and \<open>true\<close> is returned.\<close>

datatype 'n strip_result = Deleted_returning "'n option" | Returning_true

text \<open>The pattern \<^verbatim>\<open>/\bmw:(StartTag|EndTag|Extension\/ref\/Marker|TSRMarker)\/?[^\s]*\b/\<close>.\<close>

definition marker_re :: rx where
  "marker_re =
     Seq WordB (Seq (str ''mw:'')
       (Seq (Alt (str ''StartTag'') (Alt (str ''EndTag'')
               (Alt (str ''Extension/ref/Marker'') (str ''TSRMarker''))))
         (Seq (Opt (lit CHR ''/''))
           (Seq (Star (Sym (\<lambda>c. \<not> is_space c))) WordB))))"

text \<open>A string or \<open>null\<close> used as a condition.\<close>

definition truthy :: "string option \<Rightarrow> bool" where
  "truthy a \<longleftrightarrow> (case a of None \<Rightarrow> False | Some v \<Rightarrow> v \<noteq> [])"

definition stripMarkerMetas :: "bool \<Rightarrow> 'n meta_node \<Rightarrow> 'n strip_result" where
  "stripMarkerMetas editMode node =
     (let metaType = typeof_attr node in
      if (case metaType of
            None \<Rightarrow> False
          | Some t \<Rightarrow> t \<noteq> [] \<and> rx_test marker_re t \<and> \<not> truthy (property_attr node))
         \<or> (editMode \<and> metaType = Some ''mw:Placeholder/StrippedTag'')
      then Deleted_returning (nextSibling node)
      else Returning_true)"

text \<open>A marker meta in the sense of the specification: the \<open>typeof\<close> matches one of
  the marker names and there is no \<open>property\<close> attribute.\<close>

definition marker_meta :: "'n meta_node \<Rightarrow> bool" where
  "marker_meta node \<longleftrightarrow>
     (\<exists>t. typeof_attr node = Some t \<and> t \<noteq> [] \<and> rx_test marker_re t)
     \<and> \<not> truthy (property_attr node)"


section \<open>DOM nodes and the serializer state\<close>

text \<open>
  A number read from a \<open>dsr\<close> array is a number, \<open>null\<close> or \<open>undefined\<close>
  (an index outside the array).
\<close>

datatype jsnum = Num int | Null | Undefined

datatype ntype = ELEMENT_NODE | TEXT_NODE | COMMENT_NODE

text \<open>What the serializer reads of a node's parent: its name, the number of its
  children, and what \<open>DU.isBlockNode\<close> says of it.\<close>

record pnode =
  p_nodeName :: string
  p_childCount :: nat
  p_isBlockNode :: bool

text \<open>
  What the functions below read of a DOM node: its identity, type, name and value,
  \<open>node.data.parsoid.dsr\<close> (\<open>None\<close> when there is no such array) and
  \<open>node.data.parsoid.stx\<close>, whether it has a next sibling, and its parent.
\<close>

record node =
  nodeId :: nat
  nodeType :: ntype
  nodeName :: string
  nodeValue :: string
  dsr :: "jsnum list option"
  stx :: "string option"
  hasNextSibling :: bool
  parentNode :: "pnode option"

text \<open>The \<open>{min, max}\<close> object a separator handler returns.\<close>

type_synonym nlc = "int option \<times> int option"

text \<open>
  \<open>state.sep\<close>. The serializer compares separator objects by identity
  (\<open>oldSep === this.sep\<close>), so each object carries the number it was created with.
\<close>

record sepst =
  sep_id :: nat
  constraints :: "nlc constraints option"
  src :: "string option"
  lastSourceNode :: "node option"
  lastSourceSep :: "string option"

text \<open>\<open>state.currLine\<close>.\<close>

record currLine =
  cl_text :: string
  cl_firstNode :: "node option"
  cl_processed :: bool
  hasOpenHeadingChar :: bool
  hasOpenBrackets :: bool

text \<open>
  The wikitext escape handlers of \<open>WikitextEscapeHandlers.prototype\<close> that are pushed on
  \<open>state.wteHandlerStack\<close>. The heading and list item handlers are bound to their
  node; of it they read whether the heading's first child is a text node, and which node
  the list item's first child is.
\<close>

datatype escaper =
    HeadingHandler bool
  | LiHandler "nat option"
  | QuoteHandler
  | ThHandler
  | WikilinkHandler
  | AHandler
  | TdHandler

text \<open>
  What is written to the console: the exception and the node name that the handler call in
  \<open>_serializeNode\<close> logs when it catches, the missing handler, and the exception
  \<open>serializeDOM\<close> logs before it throws it again.
\<close>

datatype logentry =
    Log_exception exn
  | Log_node string
  | Log_no_handler string
  | Log_serializeDOM exn

text \<open>
  The serializer state. \<open>page_src\<close> is \<open>env.page.src\<close> (\<open>None\<close> when there is
  no source). The last four fields hold the effects of a run: the chunks handed to the
  client's callback, the console, the exceptions passed to \<open>env.errCB\<close>, and the
  number of the next separator object.
\<close>

record state =
  rtTesting :: bool
  selserMode :: bool
  sep :: sepst
  onSOL :: bool
  escapeText :: bool
  atStartOfOutput :: bool
  inIndentPre :: bool
  inPHPBlock :: bool
  inNoWiki :: bool
  inHTMLPre :: bool
  inWideTD :: bool
  inModifiedContent :: bool
  wteHandlerStack :: "escaper list"
  currLine :: currLine
  prevNodeUnmodified :: bool
  currNodeUnmodified :: bool
  prevNode :: "node option"
  page_src :: "string option"
  out :: "(string \<times> node) list"
  console :: "logentry list"
  errCB :: "exn list"
  fresh :: nat

text \<open>The \<open>opts\<close> argument of \<open>escapeWikiText\<close>: \<open>{node, isLastChild}\<close>.\<close>

record opts =
  o_node :: nat
  isLastChild :: bool

definition empty_sep :: "nat \<Rightarrow> sepst" where
  "empty_sep i = \<lparr>sep_id = i, constraints = None, src = None,
                  lastSourceNode = None, lastSourceSep = None\<rparr>"

text \<open>\<open>WSP.initialState\<close>; the properties it does not list are \<open>undefined\<close>.\<close>

definition initialState :: state where
  "initialState =
     \<lparr>rtTesting = True, selserMode = False, sep = empty_sep 0, onSOL = True,
      escapeText = False, atStartOfOutput = True, inIndentPre = False, inPHPBlock = False,
      inNoWiki = False, inHTMLPre = False, inWideTD = False, inModifiedContent = False,
      wteHandlerStack = [],
      currLine = \<lparr>cl_text = [], cl_firstNode = None, cl_processed = False,
                   hasOpenHeadingChar = False, hasOpenBrackets = False\<rparr>,
      prevNodeUnmodified = False, currNodeUnmodified = False, prevNode = None,
      page_src = None, out = [], console = [], errCB = [], fresh = 1\<rparr>"

section \<open>The escape handlers\<close>

definition TAB :: char where
  "TAB = CHR 0x09"

text \<open>\<^verbatim>\<open>/^[#\*:;]/\<close>\<close>

definition li_re :: rx where
  "li_re = Seq Bol (one_of ''#*:;'')"

text \<open>\<^verbatim>\<open>/^'|'$/\<close>\<close>

definition quote_re :: rx where
  "quote_re = Alt (Seq Bol (lit (CHR 0x27))) (Seq (lit (CHR 0x27)) Eol)"

text \<open>\<^verbatim>\<open>/!!|\|\|/\<close>\<close>

definition th_re :: rx where
  "th_re = Alt (str ''!!'') (str ''||'')"

text \<open>\<^verbatim>\<open>/(^\|)|(^\[\[)|(^\]\])|(\]$)/\<close>\<close>

definition wikilink_re :: rx where
  "wikilink_re =
     Alt (Seq Bol (lit CHR ''|''))
       (Alt (Seq Bol (str ''[[''))
         (Alt (Seq Bol (str '']]'')) (Seq (lit CHR '']'') Eol)))"

text \<open>\<^verbatim>\<open>/\]$/\<close>\<close>

definition a_re :: rx where
  "a_re = Seq (lit CHR '']'') Eol"

text \<open>\<^verbatim>\<open>/\|/\<close> and \<^verbatim>\<open>/^[\-+]/\<close>\<close>

definition td_re1 :: rx where
  "td_re1 = lit CHR ''|''"

definition td_re2 :: rx where
  "td_re2 = Seq Bol (one_of ''-+'')"

text \<open>
  \<open>wteHandler(state, text, opts)\<close>, for each of the handlers. \<open>opts\<close> is
  \<open>undefined\<close> when \<open>escapeWikiText\<close> is called with two arguments; reading a
  property of it then throws.
\<close>

fun call_escaper :: "escaper \<Rightarrow> state \<Rightarrow> string \<Rightarrow> opts option \<Rightarrow> exn + bool" where
  "call_escaper (HeadingHandler firstChildIsText) state text opts =
     (case opts of
        None \<Rightarrow> Inl TypeError
      | Some o' \<Rightarrow>
          if isLastChild o' \<and> firstChildIsText then
            (let line = cl_text (currLine state);
                 line = (if length line = 0 then text else line)
             in Inr (line \<noteq> [] \<and> hd line = CHR ''='' \<and> text \<noteq> [] \<and> length text > 0
                     \<and> last text = CHR ''=''))
          else Inr False)"
| "call_escaper (LiHandler firstChild) state text opts =
     (if cl_text (currLine state) = [] then
        (case opts of
           None \<Rightarrow> Inl TypeError
         | Some o' \<Rightarrow>
             if Some (o_node o') = firstChild then Inr (rx_test li_re text) else Inr False)
      else Inr False)"
| "call_escaper QuoteHandler state text opts = Inr (rx_test quote_re text)"
| "call_escaper ThHandler state text opts = Inr (rx_test th_re text)"
| "call_escaper WikilinkHandler state text opts = Inr (rx_test wikilink_re text)"
| "call_escaper AHandler state text opts = Inr (rx_test a_re text)"
| "call_escaper TdHandler state text opts =
     Inr (rx_test td_re1 text
          \<or> (cl_text (currLine state) = [] \<and> rx_test td_re2 text \<and> \<not> inWideTD state))"

section \<open>Escaping wikitext\<close>

text \<open>\<^verbatim>\<open>[~]{3,5}\<close>\<close>

definition tildes_3_5 :: rx where
  "tildes_3_5 =
     Seq (lit CHR ''~'') (Seq (lit CHR ''~'') (Seq (lit CHR ''~'')
       (Seq (Opt (lit CHR ''~'')) (Opt (lit CHR ''~'')))))"

text \<open>
  The two groups of the pattern of \<open>escapedText\<close>,
  \<^verbatim>\<open>/^((?:.*?|[\r\n]+[^\r\n]|[~]{3,5})*?)((?:\r?\n)*)$/\<close>.
\<close>

definition escaped_head_re :: rx where
  "escaped_head_re =
     LazyStar (Alt (LazyStar dot)
                (Alt (Seq (Plus (one_of [CR, LF])) (none_of [CR, LF])) tildes_3_5))"

definition escaped_tail_re :: rx where
  "escaped_tail_re = Star (Seq (Opt (lit CR)) (lit LF))"

text \<open>
  \<open>s.match(/^(a)(b)$/)\<close>: the first end of the first group, in backtracking order,
  from which the second group reaches the end of the string. The result holds the two
  groups; \<open>None\<close> is \<open>null\<close>.
\<close>

definition match_two :: "rx \<Rightarrow> rx \<Rightarrow> string \<Rightarrow> (string \<times> string) option" where
  "match_two a b s =
     (case filter (\<lambda>i. ms (Seq b Eol) s i \<noteq> []) (ms a s 0) of
        [] \<Rightarrow> None
      | i # _ \<Rightarrow> Some (take i s, drop i s))"

text \<open>\<open>escapedText\<close>. Reading \<open>match[1]\<close> throws when there is no match.\<close>

definition escapedText :: "string \<Rightarrow> exn + string" where
  "escapedText text =
     (case match_two escaped_head_re escaped_tail_re text of
        None \<Rightarrow> Inl TypeError
      | Some (m1, m2) \<Rightarrow> Inr (''<nowiki>'' @ m1 @ ''</nowiki>'' @ m2))"

text \<open>
  A run of newlines as the second group of the pattern of \<open>escapedText\<close> matches it:
  line feeds, each possibly preceded by a carriage return. One item of the run takes the
  matcher from one position to the next.
\<close>

fun newline_run :: "string \<Rightarrow> bool" where
  "newline_run [] = True"
| "newline_run [c] = (c = LF)"
| "newline_run (c # d # cs) =
     (if c = LF then newline_run (d # cs) else c = CR \<and> d = LF \<and> newline_run cs)"

definition nl_step :: "string \<Rightarrow> nat \<Rightarrow> nat \<Rightarrow> bool" where
  "nl_step s a b \<longleftrightarrow>
     (a < length s \<and> s ! a = LF \<and> b = Suc a)
     \<or> (Suc a < length s \<and> s ! a = CR \<and> s ! Suc a = LF \<and> b = Suc (Suc a))"

text \<open>
  Four parts of the serializer are parameters of the model. \<open>dsrSep\<close> is the first
  half of \<open>emitSeparator\<close>, which computes a separator from the \<open>dsr\<close> of the
  neighbouring nodes with the help of the DOM utilities (\<open>None\<close> is \<open>undefined\<close>);
  \<open>makeSeparator\<close> is the function of that name; \<open>ewtRest\<close> is
  \<open>escapeWikiText\<close> from the computation of \<open>sol\<close> on, which consults the
  tokenizer and writes \<open>state.currLine\<close> only; \<open>escapeEntities\<close> is
  \<open>Util.escapeEntities\<close>, which is outside the source files at hand.
\<close>

record params =
  dsrSep :: "state \<Rightarrow> node \<Rightarrow> string option"
  makeSeparator :: "string \<Rightarrow> node \<Rightarrow> nlc constraints \<Rightarrow> state \<Rightarrow> string"
  ewtRest :: "state \<Rightarrow> string \<Rightarrow> opts option \<Rightarrow> (exn + string) \<times> currLine"
  escapeEntities :: "string \<Rightarrow> string"

text \<open>\<^verbatim>\<open>/\b(RFC|ISBN|PMID)\b/\<close>\<close>

definition urlTriggers :: rx where
  "urlTriggers =
     Seq WordB (Seq (Alt (str ''RFC'') (Alt (str ''ISBN'') (str ''PMID''))) WordB)"

text \<open>\<^verbatim>\<open>/^[ \t][^\s]+|[<>\[\]\-\+\|'!=#\*:;~{}]/\<close>\<close>

definition quick_re :: rx where
  "quick_re =
     Alt (Seq Bol (Seq (one_of [CHR '' '', TAB]) (Plus (Sym (\<lambda>c. \<not> is_space c)))))
         (one_of (''<>[]-+|'' @ [CHR 0x27] @ ''!=#*:;~{}''))"

text \<open>\<^verbatim>\<open>/\{\{\{|\{\{|\}\}\}|\}\}/\<close>\<close>

definition braces_re :: rx where
  "braces_re = Alt (str ''{{{'') (Alt (str ''{{'') (Alt (str ''}}}'') (str ''}}'')))"

text \<open>
  \<open>WSP.escapeWikiText\<close>: the quick check, the context-specific handler on top of
  the stack, the template markers, then the rest.
\<close>

definition escapeWikiText ::
  "params \<Rightarrow> state \<Rightarrow> string \<Rightarrow> opts option \<Rightarrow> (exn + string) \<times> state" where
  "escapeWikiText P state text opts =
     (let fullCheckNeeded = rx_test urlTriggers text in
      if \<not> fullCheckNeeded \<and> \<not> rx_test quick_re text then (Inr text, state)
      else
        (case (case wteHandlerStack state of
                 [] \<Rightarrow> Inr False
               | _ \<Rightarrow> call_escaper (last (wteHandlerStack state)) state text opts) of
           Inl e \<Rightarrow> (Inl e, state)
         | Inr True \<Rightarrow> (escapedText text, state)
         | Inr False \<Rightarrow>
             if rx_test braces_re text then (escapedText text, state)
             else (let (r, cl) = ewtRest P state text opts
                   in (r, state\<lparr>currLine := cl\<rparr>))))"

text \<open>A string occurs in another at a position; a text contains one of the template
  markers.\<close>

definition occurs_at :: "string \<Rightarrow> string \<Rightarrow> nat \<Rightarrow> bool" where
  "occurs_at w s i \<longleftrightarrow> i + length w \<le> length s \<and> take (length w) (drop i s) = w"

definition contains :: "string \<Rightarrow> string \<Rightarrow> bool" where
  "contains w s \<longleftrightarrow> (\<exists>i. occurs_at w s i)"

definition has_braces :: "string \<Rightarrow> bool" where
  "has_braces text \<longleftrightarrow>
     contains ''{{{'' text \<or> contains ''{{'' text
     \<or> contains ''}}}'' text \<or> contains ''}}'' text"

section \<open>Emitting separators and output\<close>

text \<open>\<open>isValidSep\<close>: \<^verbatim>\<open>/^(\s|<!--([^\-]|-(?!->))*-->)*$/\<close>.\<close>

definition isValidSep_re :: rx where
  "isValidSep_re =
     Seq Bol (Seq
       (Star (Alt (Sym is_space)
                  (Seq (str ''<!--'')
                    (Seq (Star (Alt (none_of ''-'')
                                    (Seq (lit CHR ''-'') (NotAhead (str ''->'')))))
                         (str ''-->'')))))
       Eol)"

definition isValidSep :: "string \<Rightarrow> bool" where
  "isValidSep s = rx_test isValidSep_re s"

text \<open>
  \<open>String.prototype.substring\<close>: the arguments are made integers (\<open>null\<close> and a
  start of \<open>undefined\<close> are 0, an end of \<open>undefined\<close> is the length), clamped to
  the string, and swapped when the start lies behind the end.
\<close>

definition to_integer :: "jsnum \<Rightarrow> int" where
  "to_integer v = (case v of Num n \<Rightarrow> n | Null \<Rightarrow> 0 | Undefined \<Rightarrow> 0)"

definition js_substring :: "string \<Rightarrow> jsnum \<Rightarrow> jsnum \<Rightarrow> string" where
  "js_substring s start end' =
     (let len = int (length s);
          intStart = to_integer start;
          intEnd = (if end' = Undefined then len else to_integer end');
          finalStart = min (max intStart 0) len;
          finalEnd = min (max intEnd 0) len;
          from = min finalStart finalEnd;
          to = max finalStart finalEnd
      in take (nat to - nat from) (drop (nat from) s))"

text \<open>\<open>getOrigSrc\<close>: \<open>this.env.page.src.substring(start, end)\<close>.\<close>

definition getOrigSrc :: "state \<Rightarrow> jsnum \<Rightarrow> jsnum \<Rightarrow> exn + string" where
  "getOrigSrc state start end' =
     (case page_src state of
        None \<Rightarrow> Inl TypeError
      | Some s \<Rightarrow> Inr (js_substring s start end'))"

definition dsr_at :: "jsnum list \<Rightarrow> nat \<Rightarrow> jsnum" where
  "dsr_at d i = (if i < length d then d ! i else Undefined)"

text \<open>The client's callback receives a chunk and its node.\<close>

definition cb_out :: "string \<Rightarrow> node \<Rightarrow> state \<Rightarrow> state" where
  "cb_out chunk node state = state\<lparr>out := out state @ [(chunk, node)]\<rparr>"

text \<open>\<open>emitSep\<close>: emit, reset the separator state to a new object, note a newline.\<close>

definition emitSep :: "string \<Rightarrow> node \<Rightarrow> state \<Rightarrow> state" where
  "emitSep sep' node state =
     (let state1 = cb_out sep' node state;
          state2 = state1\<lparr>sep := empty_sep (fresh state1), fresh := Suc (fresh state1)\<rparr>
      in if sep' \<noteq> [] \<and> rx_test (lit LF) sep' then state2\<lparr>onSOL := True\<rparr> else state2)"

text \<open>\<open>state.sep.src || ''\<close>.\<close>

definition or_empty :: "string option \<Rightarrow> string" where
  "or_empty a = (case a of None \<Rightarrow> [] | Some v \<Rightarrow> v)"

text \<open>\<open>WSP.emitSeparator\<close>, from the verification of the separator found by
  \<open>dsr\<close> on.\<close>

definition emitSeparator :: "params \<Rightarrow> state \<Rightarrow> node \<Rightarrow> state" where
  "emitSeparator P state node =
     (let sep0 = dsrSep P state node;
          sep_src = src (sep state);
          sep1 =
            (if (case sep0 of
                   None \<Rightarrow> True
                 | Some s \<Rightarrow> \<not> isValidSep s \<or> (truthy sep_src \<and> sep_src \<noteq> Some s))
             then
               (case constraints (sep state) of
                  Some c \<Rightarrow> Some (makeSeparator P (or_empty sep_src) node c state)
                | None \<Rightarrow>
                    if truthy sep_src then
                      Some (makeSeparator P (or_empty sep_src) node
                              \<lparr>cmin = None, cmax = Some 0,
                               ca = Some (None, None), cb = Some (None, None)\<rparr> state)
                    else None)
             else sep0)
      in case sep1 of None \<Rightarrow> state | Some s \<Rightarrow> emitSep s node state)"

definition resetCurrLine :: "node \<Rightarrow> state \<Rightarrow> state" where
  "resetCurrLine node state =
     state\<lparr>currLine := \<lparr>cl_text = [], cl_firstNode = Some node, cl_processed = False,
                          hasOpenHeadingChar = False, hasOpenBrackets = False\<rparr>\<rparr>"

text \<open>
  \<open>emitSepAndOutput\<close>, in the order of its statements: the separator is emitted
  first; the node is recorded as the previous one; \<open>res\<close> is escaped if necessary;
  \<open>res\<close> is put out and the state updated.
\<close>

definition emitSepFirst :: "params \<Rightarrow> node \<Rightarrow> state \<Rightarrow> exn + state" where
  "emitSepFirst P node state =
     (if prevNodeUnmodified state \<and> currNodeUnmodified state then
        (case prevNode state of
           None \<Rightarrow> Inl TypeError
         | Some prev \<Rightarrow>
             (case dsr prev of
                None \<Rightarrow> Inl TypeError
              | Some dsrA \<Rightarrow>
                  (case dsr node of
                     None \<Rightarrow> Inl TypeError
                   | Some dsrB \<Rightarrow>
                       (case getOrigSrc state (dsr_at dsrA 1) (dsr_at dsrB 0) of
                          Inl e \<Rightarrow> Inl e
                        | Inr origSep \<Rightarrow>
                            if isValidSep origSep then Inr (emitSep origSep node state)
                            else Inr (emitSeparator P state node)))))
      else Inr (emitSeparator P state node))"

definition recordNode :: "node \<Rightarrow> state \<Rightarrow> state" where
  "recordNode node state =
     (let state1 = state\<lparr>prevNodeUnmodified := currNodeUnmodified state,
                          prevNode := Some node,
                          currNodeUnmodified := False\<rparr>
      in if onSOL state1 then resetCurrLine node state1 else state1)"

definition escapeRes ::
  "params \<Rightarrow> string \<Rightarrow> node \<Rightarrow> state \<Rightarrow> (exn + string) \<times> state" where
  "escapeRes P res node state =
     (if escapeText state then
        (case escapeWikiText P state res
                (Some \<lparr>o_node = nodeId node, isLastChild = \<not> hasNextSibling node\<rparr>) of
           (Inl e, s) \<Rightarrow> (Inl e, s)
         | (Inr r, s) \<Rightarrow> (Inr r, s\<lparr>escapeText := False\<rparr>))
      else (Inr res, state))"

definition outputRes :: "string \<Rightarrow> string \<Rightarrow> node \<Rightarrow> state \<Rightarrow> state" where
  "outputRes origRes res node state =
     (let state1 =
            (if nodeType node = TEXT_NODE \<and> res = origRes then
               state\<lparr>currLine := (currLine state)
                        \<lparr>cl_text := cl_text (currLine state) @ res,
                         cl_processed := False\<rparr>\<rparr>
             else state);
          state2 = cb_out res node state1;
          state3 = state2\<lparr>sep := (sep state2)
                      \<lparr>lastSourceNode := Some node,
                       lastSourceSep := src (sep state2)\<rparr>\<rparr>
      in if \<not> rx_test isValidSep_re res then state3\<lparr>onSOL := False\<rparr> else state3)"

definition emitOutput :: "params \<Rightarrow> string \<Rightarrow> node \<Rightarrow> state \<Rightarrow> exn option \<times> state" where
  "emitOutput P res node state =
     (case escapeRes P res node (recordNode node state) of
        (Inl e, s) \<Rightarrow> (Some e, s)
      | (Inr res1, s) \<Rightarrow> (None, outputRes res res1 node s))"

text \<open>The result is the exception thrown, if any, and the state the call leaves.\<close>

definition emitSepAndOutput ::
  "params \<Rightarrow> string \<Rightarrow> node \<Rightarrow> state \<Rightarrow> exn option \<times> state" where
  "emitSepAndOutput P res node state =
     (case emitSepFirst P node state of
        Inl e \<Rightarrow> (Some e, state)
      | Inr state1 \<Rightarrow> emitOutput P res node state1)"

text \<open>Parameters and nodes for the examples: no separator is found by \<open>dsr\<close>,
  \<open>makeSeparator\<close> returns the separator text it is given, the rest of
  \<open>escapeWikiText\<close> leaves the text as it is, and there are no entities to escape.\<close>

definition ex_params :: params where
  "ex_params =
     \<lparr>dsrSep = (\<lambda>state node. None),
      makeSeparator = (\<lambda>s node c state. s),
      ewtRest = (\<lambda>state text opts. (Inr text, currLine state)),
      escapeEntities = (\<lambda>s. s)\<rparr>"

definition ex_prev :: node where
  "ex_prev = \<lparr>nodeId = 1, nodeType = ELEMENT_NODE, nodeName = ''P'', nodeValue = [],
              dsr = Some [Num 0, Num 1, Num 0, Num 0], stx = None, hasNextSibling = True,
              parentNode = Some \<lparr>p_nodeName = ''BODY'', p_childCount = 2, p_isBlockNode = True\<rparr>\<rparr>"

definition ex_curr :: node where
  "ex_curr = \<lparr>nodeId = 2, nodeType = ELEMENT_NODE, nodeName = ''P'', nodeValue = [],
              dsr = Some [Num 3, Num 4, Num 0, Num 0], stx = None, hasNextSibling = False,
              parentNode = Some \<lparr>p_nodeName = ''BODY'', p_childCount = 2, p_isBlockNode = True\<rparr>\<rparr>"

text \<open>The state after the first of two unmodified paragraphs of the source
  \<open>a\n\nb\<close> was emitted, at the second.\<close>

definition ex_selser_state :: state where
  "ex_selser_state =
     initialState\<lparr>selserMode := True, onSOL := False, prevNodeUnmodified := True,
                  currNodeUnmodified := True, prevNode := Some ex_prev,
                  page_src := Some (''a'' @ [LF, LF] @ ''b''),
                  out := [(''a'', ex_prev)]\<rparr>"


section \<open>The handler of \<open>br\<close>\<close>

text \<open>
  The callback \<open>cb\<close> a handler is given takes a chunk and its node; it works on the
  serializer state and may throw.
\<close>

type_synonym callback = "string \<Rightarrow> node \<Rightarrow> state \<Rightarrow> exn option \<times> state"

text \<open>\<open>tagHandlers.br.handle\<close>. Reading \<open>node.parentNode.nodeName\<close> throws when
  the node has no parent.\<close>

definition br_handle :: "node \<Rightarrow> state \<Rightarrow> callback \<Rightarrow> exn option \<times> state" where
  "br_handle node state cb' =
     (if stx node = Some ''html'' then cb' ''<br>'' node state
      else
        (case parentNode node of
           None \<Rightarrow> (Some TypeError, state)
         | Some parent \<Rightarrow>
             if p_nodeName parent \<noteq> ''P'' then cb' ''<br>'' node state
             else
               (case constraints (sep state) of
                  None \<Rightarrow> cb' [] node state
                | Some c \<Rightarrow>
                    if cmin c = Some 2 \<and> p_childCount parent = 1 then
                      cb' [] node
                        (state\<lparr>sep := (sep state)
                                  \<lparr>constraints := Some (c\<lparr>cmin := Some 2, cmax := Some 2\<rparr>)\<rparr>\<rparr>)
                    else cb' [] node state)))"

text \<open>The pending separator constraints with \<open>min\<close> and \<open>max\<close> set to 2.\<close>

definition forced_2_2 :: "state \<Rightarrow> state" where
  "forced_2_2 state =
     state\<lparr>sep := (sep state)
             \<lparr>constraints :=
                map_option (\<lambda>c. c\<lparr>cmin := Some 2, cmax := Some 2\<rparr>) (constraints (sep state))\<rparr>\<rparr>"

text \<open>The \<open>p/br\<close> pair of the code's comment: constraints are pending with a
  \<open>min\<close> of 2, and the \<open>br\<close> is the only child of its parent.\<close>

definition p_br_pair :: "state \<Rightarrow> pnode \<Rightarrow> bool" where
  "p_br_pair state parent \<longleftrightarrow>
     (\<exists>c. constraints (sep state) = Some c \<and> cmin c = Some 2) \<and> p_childCount parent = 1"

text \<open>A callback that hands the chunk on to the client, and examples: a \<open>br\<close>
  between two text nodes of a paragraph, a \<open>br\<close> that is the only child of a
  paragraph, and states with pending constraints.\<close>

definition cb_record :: callback where
  "cb_record chunk node state = (None, cb_out chunk node state)"

definition ex_br :: node where
  "ex_br = \<lparr>nodeId = 3, nodeType = ELEMENT_NODE, nodeName = ''BR'', nodeValue = [],
            dsr = Some [], stx = None, hasNextSibling = True,
            parentNode = Some \<lparr>p_nodeName = ''P'', p_childCount = 3, p_isBlockNode = True\<rparr>\<rparr>"

definition ex_only_br :: node where
  "ex_only_br = ex_br\<lparr>hasNextSibling := False,
                       parentNode := Some \<lparr>p_nodeName = ''P'', p_childCount = 1, p_isBlockNode = True\<rparr>\<rparr>"

definition ex_pending :: "int option \<Rightarrow> int option \<Rightarrow> state" where
  "ex_pending mn mx =
     initialState\<lparr>sep := (empty_sep 0)
                    \<lparr>constraints := Some \<lparr>cmin = mn, cmax = mx,
                                          ca = Some (None, None), cb = Some (None, None)\<rparr>\<rparr>\<rparr>"




section \<open>Global matching and replacing\<close>











section \<open>The traversal\<close>
























text \<open>The number of exceptions the \<open>catch\<close> of \<open>_serializeNode\<close> has logged.\<close>

fun is_Log_exception :: "logentry \<Rightarrow> bool" where
  "is_Log_exception (Log_exception e) = True"
| "is_Log_exception _ = False"

definition caught_count :: "state \<Rightarrow> nat" where
  "caught_count state = length (filter is_Log_exception (console state))"









text \<open>Two states have the same handler stack and console; a call leaves the handler
  stack as it was unless it threw or an exception was caught on the way.\<close>

definition frame :: "state \<Rightarrow> state \<Rightarrow> bool" where
  "frame s s' \<longleftrightarrow> wteHandlerStack s' = wteHandlerStack s \<and> console s' = console s"

definition keeps :: "state \<Rightarrow> exn option \<times> state \<Rightarrow> bool" where
  "keeps s res \<longleftrightarrow>
     caught_count s \<le> caught_count (snd res)
     \<and> (fst res = None \<and> caught_count (snd res) = caught_count s
          \<longrightarrow> wteHandlerStack (snd res) = wteHandlerStack s)"









chapter \<open>Properties of the code\<close>

section \<open>Merging separator constraints\<close>

lemma mergeConstraints_unfold:
  "mergeConstraints old new =
    (if merged_min old new > merged_max old new then
       (let res_min1 =
              (if (case cmax new of None \<Rightarrow> False | Some m \<Rightarrow> m > merged_min old new)
               then merged_min old new
               else if (case cmin new of
                          None \<Rightarrow> False
                        | Some m \<Rightarrow> m \<noteq> 0 \<and> m < merged_min old new)
               then or_zero (cmin new)
               else merged_min old new)
        in (\<lparr>cmin = Some res_min1, cmax = Some res_min1, ca = ca old, cb = cb new\<rparr>,
            [Incompatible_merge (res_min1, res_min1) old new]))
     else (\<lparr>cmin = Some (merged_min old new), cmax = Some (merged_max old new),
            ca = ca old, cb = cb new\<rparr>, []))"
  unfolding mergeConstraints_def merged_min_def merged_max_def Let_def
  by (auto split: option.splits)

text \<open>
  Claim C4, as the code has it. Without a conflict the result is the larger minimum and
  the smaller maximum (defaults 0 and 2) and nothing is logged. With a conflict
  (the larger minimum exceeds the smaller maximum) the conflict is logged and the result is
  collapsed to a single value, \<open>max = min\<close>: that value is the larger minimum when the
  newer constraint has a maximum above it, and the newer constraint's minimum when
  that is not so and the newer minimum is non-zero and below the larger minimum.
  In both cases \<open>a\<close> comes from the older and \<open>b\<close> from the newer constraint.
\<close>

theorem mergeConstraints_result:
  "(merged_min old new \<le> merged_max old new \<longrightarrow>
      mergeConstraints old new =
        (\<lparr>cmin = Some (merged_min old new), cmax = Some (merged_max old new),
          ca = ca old, cb = cb new\<rparr>, []))
   \<and> (merged_min old new > merged_max old new \<longrightarrow>
        snd (mergeConstraints old new) \<noteq> []
      \<and> cmax (fst (mergeConstraints old new)) = cmin (fst (mergeConstraints old new))
      \<and> ca (fst (mergeConstraints old new)) = ca old
      \<and> cb (fst (mergeConstraints old new)) = cb new
      \<and> (\<forall>v. cmax new = Some v \<and> v > merged_min old new \<longrightarrow>
             cmin (fst (mergeConstraints old new)) = Some (merged_min old new))
      \<and> (\<forall>w. (\<forall>v. cmax new = Some v \<longrightarrow> v \<le> merged_min old new)
               \<and> cmin new = Some w \<and> w \<noteq> 0 \<and> w < merged_min old new \<longrightarrow>
             cmin (fst (mergeConstraints old new)) = Some w))"
proof (cases "merged_min old new > merged_max old new")
  case False
  then show ?thesis by (simp add: mergeConstraints_unfold)
next
  case True
  then show ?thesis
    by (auto simp add: mergeConstraints_unfold Let_def or_zero_def split: option.splits)
qed

theorem mergeConstraints_result_witness:
  "mergeConstraints \<lparr>cmin = Some 1, cmax = None, ca = None, cb = None\<rparr>
                    \<lparr>cmin = None, cmax = Some 2, ca = None, cb = None :: unit option\<rparr>
     = (\<lparr>cmin = Some 1, cmax = Some 2, ca = None, cb = None\<rparr>, [])
   \<and> fst (mergeConstraints \<lparr>cmin = Some 3, cmax = None, ca = None, cb = None\<rparr>
                    \<lparr>cmin = Some 1, cmax = Some 2, ca = None, cb = None :: unit option\<rparr>)
     = \<lparr>cmin = Some 1, cmax = Some 1, ca = None, cb = None\<rparr>"
  using mergeConstraints_result
          [of "\<lparr>cmin = Some 1, cmax = None, ca = None, cb = None\<rparr>"
              "\<lparr>cmin = None, cmax = Some 2, ca = None, cb = None :: unit option\<rparr>"]
        mergeConstraints_result
          [of "\<lparr>cmin = Some 3, cmax = None, ca = None, cb = None\<rparr>"
              "\<lparr>cmin = Some 1, cmax = Some 2, ca = None, cb = None :: unit option\<rparr>"]
  by (simp add: merged_min_def merged_max_def or_zero_def or_two_def)

text \<open>
  Claim C4 as stated fails: merging \<open>{min: 0, max: 0}\<close> with the newer
  \<open>{min: 1, max: 2}\<close> gives \<open>{min: 1, max: 1}\<close>; the maximum is neither the
  smaller of the two maxima (0) nor the newer constraint's maximum (2).
\<close>

theorem mergeConstraints_counterexample:
  "cmax (fst (mergeConstraints \<lparr>cmin = Some 0, cmax = Some 0, ca = None, cb = None\<rparr>
                 \<lparr>cmin = Some 1, cmax = Some 2, ca = None, cb = None :: unit option\<rparr>))
     = Some 1
   \<and> cmax (fst (mergeConstraints \<lparr>cmin = Some 0, cmax = Some 0, ca = None, cb = None\<rparr>
                 \<lparr>cmin = Some 1, cmax = Some 2, ca = None, cb = None :: unit option\<rparr>))
     \<noteq> Some (min (or_two (Some 0)) (or_two (Some 2)))
   \<and> cmax (fst (mergeConstraints \<lparr>cmin = Some 0, cmax = Some 0, ca = None, cb = None\<rparr>
                 \<lparr>cmin = Some 1, cmax = Some 2, ca = None, cb = None :: unit option\<rparr>))
     \<noteq> Some 2"
  by (simp add: mergeConstraints_def or_zero_def or_two_def)

section \<open>Comments\<close>

text \<open>
  Claim C8 asks that every occurrence of \<open>-->\<close> in a comment body is escaped.
  The replacement has no \<open>g\<close> flag: for the body \<open>a-->b-->c\<close> only the first
  occurrence is replaced, and the second one ends the emitted comment early.
\<close>

theorem commentWT_second_occurrence:
  "commentWT ''a-->b-->c'' = ''<!--a--&gt;b-->c-->''"
  by (simp add: commentWT_def replace_first_def rx_exec_def lit_def)


section \<open>Template reconstruction\<close>

text \<open>The argument loop, started at index \<open>i\<close>, appends the arguments from
  position \<open>i + 1\<close> on.\<close>

lemma tplArgs_loop:
  assumes "distinct (map fst ps)" "i \<le> length ps"
  shows "tplArgs ps (map fst ps) i argBuf = Inr (argBuf @ spec_args (Suc i) (drop i ps))"
  using assms
proof (induction "length ps - i" arbitrary: i argBuf)
  case 0
  then show ?case by (subst tplArgs.simps) simp
next
  case (Suc n)
  then have lt: "i < length ps" by simp
  then have dr: "drop i ps = ps ! i # drop (Suc i) ps" by (simp add: Cons_nth_drop_Suc)
  have look: "map_of ps (fst (ps ! i)) = Some (snd (ps ! i))"
    using Suc.prems(1) lt by (metis map_of_eq_Some_iff nth_mem prod.collapse)
  have n: "n = length ps - Suc i" using Suc.hyps(2) by simp
  have ih: "\<And>b. tplArgs ps (map fst ps) (Suc i) b
                 = Inr (b @ spec_args (Suc (Suc i)) (drop (Suc i) ps))"
    using Suc.hyps(1)[OF n Suc.prems(1)] lt by simp
  show ?case
    by (subst tplArgs.simps) (simp add: lt look ih dr spec_arg_def escapeTplArgWT_def Let_def)
qed

lemma buildPart_spec:
  assumes "wf_part p"
  shows "\<exists>buf'. buildPart buf p = Inr buf' \<and> concat buf' = concat buf @ spec_part p"
proof (cases p)
  case (Plain wt)
  then show ?thesis by simp
next
  case (Template target ps)
  with assms have d: "distinct (map fst ps)" by simp
  show ?thesis
  proof (cases "ps = []")
    case True
    with Template show ?thesis by (simp add: Object_keys_def)
  next
    case False
    have "tplArgs ps (map fst ps) 0 [] = Inr (spec_args 1 ps)"
      using tplArgs_loop[OF d, of 0 "[]"] by simp
    with False Template show ?thesis by (simp add: Object_keys_def)
  qed
qed

lemma buildParts_spec:
  assumes "\<forall>p \<in> set ps. wf_part p"
  shows "\<exists>buf'. buildParts buf ps = Inr buf'
           \<and> concat buf' = concat buf @ concat (map spec_part ps)"
  using assms
proof (induction ps arbitrary: buf)
  case Nil
  then show ?case by simp
next
  case (Cons p ps)
  then have "wf_part p" by simp
  from buildPart_spec[OF this, of buf] obtain b1 where
    b1: "buildPart buf p = Inr b1" "concat b1 = concat buf @ spec_part p" by blast
  from Cons have "\<forall>p \<in> set ps. wf_part p" by simp
  from Cons.IH[OF this, of b1] obtain b2 where
    b2: "buildParts b1 ps = Inr b2" "concat b2 = concat b1 @ concat (map spec_part ps)"
    by blast
  show ?case using b1 b2 by simp
qed

text \<open>
  Claim C9: for every list of parts (the parameter objects having distinct keys, as
  objects do), \<open>_buildTemplateWT\<close> returns the concatenation of the parts in the
  format of the specification, and does not throw.
\<close>

theorem buildTemplateWT_format:
  assumes "\<forall>p \<in> set srcParts. wf_part p"
  shows "buildTemplateWT srcParts = Inr (concat (map spec_part srcParts))"
  using buildParts_spec[OF assms, of "[]"] by (auto simp: buildTemplateWT_def)

theorem buildTemplateWT_format_witness:
  "buildTemplateWT
     [Plain ''a'',
      Template ''echo'' [(''1'', ''x''), (''2'', ''y''), (''k'', ''z''), (''5'', ''q'')],
      Template ''t'' []]
    = Inr ''a{{echo|x|y|k=z|5=q}}{{t}}''"
  using buildTemplateWT_format
          [of "[Plain ''a'',
                Template ''echo'' [(''1'', ''x''), (''2'', ''y''), (''k'', ''z''), (''5'', ''q'')],
                Template ''t'' []]"]
  by (simp add: spec_arg_def toString.simps digit_char_def)


section \<open>Annotation rendering\<close>








section \<open>Stripping marker metas\<close>

lemma marker_re_StartTag: "rx_test marker_re ''mw:StartTag''"
  by code_simp
lemma marker_re_EndTag: "rx_test marker_re ''mw:EndTag''"
  by code_simp
lemma marker_re_ref_Marker: "rx_test marker_re ''mw:Extension/ref/Marker''"
  by code_simp
lemma marker_re_TSRMarker: "rx_test marker_re ''mw:TSRMarker''"
  by code_simp
lemma marker_re_StrippedTag: "\<not> rx_test marker_re ''mw:Placeholder/StrippedTag''"
  by code_simp

text \<open>
  Claim C7, as the code has it. Whatever \<open>editMode\<close> is, a marker meta is deleted and
  its next sibling returned. \<open>editMode\<close> only decides about a node whose
  \<open>typeof\<close> is exactly \<open>mw:Placeholder/StrippedTag\<close>, which is deleted in edit mode
  and kept otherwise. Every other node is kept (\<open>true\<close> is returned).
\<close>

theorem stripMarkerMetas_editMode:
  "(marker_meta node \<longrightarrow> stripMarkerMetas editMode node = Deleted_returning (nextSibling node))
   \<and> (typeof_attr node = Some ''mw:Placeholder/StrippedTag'' \<longrightarrow>
        stripMarkerMetas editMode node =
          (if editMode then Deleted_returning (nextSibling node) else Returning_true))
   \<and> (\<not> marker_meta node \<and> typeof_attr node \<noteq> Some ''mw:Placeholder/StrippedTag'' \<longrightarrow>
        stripMarkerMetas editMode node = Returning_true)"
  by (auto simp: stripMarkerMetas_def marker_meta_def marker_re_StrippedTag Let_def
           split: option.splits)

theorem stripMarkerMetas_editMode_witness:
  "stripMarkerMetas False
     \<lparr>typeof_attr = Some ''mw:EndTag'', property_attr = None, nextSibling = Some (7::nat)\<rparr>
     = Deleted_returning (Some 7)
   \<and> stripMarkerMetas True
     \<lparr>typeof_attr = Some ''mw:Placeholder/StrippedTag'', property_attr = None,
      nextSibling = Some (7::nat)\<rparr>
     = Deleted_returning (Some 7)
   \<and> stripMarkerMetas False
     \<lparr>typeof_attr = Some ''mw:Placeholder/StrippedTag'', property_attr = None,
      nextSibling = Some (7::nat)\<rparr>
     = Returning_true
   \<and> stripMarkerMetas False
     \<lparr>typeof_attr = Some ''mw:EndTag'', property_attr = Some ''mw:PageProp/notoc'',
      nextSibling = Some (7::nat)\<rparr>
     = Returning_true"
  using stripMarkerMetas_editMode
          [of "\<lparr>typeof_attr = Some ''mw:EndTag'', property_attr = None,
                nextSibling = Some (7::nat)\<rparr>" False]
        stripMarkerMetas_editMode
          [of "\<lparr>typeof_attr = Some ''mw:Placeholder/StrippedTag'', property_attr = None,
                nextSibling = Some (7::nat)\<rparr>" True]
        stripMarkerMetas_editMode
          [of "\<lparr>typeof_attr = Some ''mw:Placeholder/StrippedTag'', property_attr = None,
                nextSibling = Some (7::nat)\<rparr>" False]
        stripMarkerMetas_editMode
          [of "\<lparr>typeof_attr = Some ''mw:EndTag'', property_attr = Some ''mw:PageProp/notoc'',
                nextSibling = Some (7::nat)\<rparr>" False]
  by (simp add: marker_meta_def marker_re_EndTag truthy_def)

text \<open>
  Claim C7 as stated fails: with \<open>editMode\<close> false, a meta with
  \<open>typeof="mw:StartTag"\<close> and no \<open>property\<close> is deleted, not kept.
\<close>

theorem stripMarkerMetas_counterexample:
  "stripMarkerMetas False
     \<lparr>typeof_attr = Some ''mw:StartTag'', property_attr = None, nextSibling = Some (7::nat)\<rparr>
     = Deleted_returning (Some 7)
   \<and> stripMarkerMetas False
     \<lparr>typeof_attr = Some ''mw:StartTag'', property_attr = None, nextSibling = Some (7::nat)\<rparr>
     \<noteq> Returning_true"
  by (simp add: stripMarkerMetas_def marker_re_StartTag truthy_def)

section \<open>Escaping wikitext\<close>

lemma rx_test_iff: "rx_test r s \<longleftrightarrow> (\<exists>i \<le> length s. ms r s i \<noteq> [])"
proof -
  have u: "set [0 ..< Suc (length s)] = {i. i \<le> length s}" by auto
  have "rx_test r s \<longleftrightarrow> filter (\<lambda>i. ms r s i \<noteq> []) [0 ..< Suc (length s)] \<noteq> []"
    by (simp add: rx_test_def rx_exec_def split: list.splits)
  also have "\<dots> \<longleftrightarrow> (\<exists>i \<in> set [0 ..< Suc (length s)]. ms r s i \<noteq> [])"
    by (simp only: filter_empty_conv) blast
  also have "\<dots> \<longleftrightarrow> (\<exists>i \<le> length s. ms r s i \<noteq> [])"
    unfolding u by blast
  finally show ?thesis .
qed

lemma ms_str_occurs: "occurs_at w s i \<Longrightarrow> ms (str w) s i = [i + length w]"
proof (induction w arbitrary: i)
  case Nil
  then show ?case by simp
next
  case (Cons c w)
  then have lt: "i < length s" by (simp add: occurs_at_def)
  then have d: "drop i s = s ! i # drop (Suc i) s" by (simp add: Cons_nth_drop_Suc)
  with Cons.prems have c: "s ! i = c" and t: "take (length w) (drop (Suc i) s) = w"
    by (simp_all add: occurs_at_def)
  have "occurs_at w s (Suc i)" using Cons.prems t by (simp add: occurs_at_def)
  then have "ms (str w) s (Suc i) = [Suc i + length w]" by (rule Cons.IH)
  then show ?case using lt c by (simp add: lit_def)
qed

lemma contains_rx_test: "contains w s \<Longrightarrow> rx_test (str w) s"
proof -
  assume "contains w s"
  then obtain i where i: "occurs_at w s i" unfolding contains_def by blast
  then have "ms (str w) s i \<noteq> []" by (simp add: ms_str_occurs)
  moreover have "i \<le> length s" using i by (simp add: occurs_at_def)
  ultimately show ?thesis unfolding rx_test_iff by blast
qed

lemma rx_test_Alt: "rx_test (Alt a b) s \<longleftrightarrow> rx_test a s \<or> rx_test b s"
  unfolding rx_test_iff by auto

lemma has_braces_braces_re:
  assumes "has_braces text"
  shows "rx_test braces_re text"
  using assms contains_rx_test unfolding has_braces_def braces_re_def rx_test_Alt by blast

lemma contains_first_char:
  assumes "contains (c # w) s"
  shows "\<exists>i < length s. s ! i = c"
proof -
  from assms obtain i where i: "occurs_at (c # w) s i" unfolding contains_def by blast
  then have lt: "i < length s" by (simp add: occurs_at_def)
  then have d: "drop i s = s ! i # drop (Suc i) s" by (simp add: Cons_nth_drop_Suc)
  with i have "s ! i = c" by (simp add: occurs_at_def)
  with lt show ?thesis by blast
qed

lemma has_braces_quick_re:
  assumes "has_braces text"
  shows "rx_test quick_re text"
proof -
  from assms have "\<exists>i < length text. text ! i = CHR ''{'' \<or> text ! i = CHR ''}''"
    unfolding has_braces_def using contains_first_char by blast
  then obtain i where lt: "i < length text"
    and c: "text ! i = CHR ''{'' \<or> text ! i = CHR ''}''" by blast
  then have "ms quick_re text i \<noteq> []"
    unfolding quick_re_def one_of_def by auto
  then show ?thesis using lt unfolding rx_test_iff by (intro exI[of _ i]) simp
qed

lemma call_escaper_TypeError: "call_escaper h state text opts = Inl e \<Longrightarrow> e = TypeError"
  by (cases h) (auto simp: Let_def split: option.splits if_splits)

text \<open>A text with a template marker is never returned as it is: what comes back is what
  \<open>escapedText\<close> makes of it, or the exception of the handler.\<close>

lemma escapeWikiText_braces:
  assumes "has_braces text"
  shows "escapeWikiText P state text opts = (escapedText text, state)
         \<or> escapeWikiText P state text opts = (Inl TypeError, state)"
proof -
  have q: "rx_test quick_re text" and b: "rx_test braces_re text"
    using assms has_braces_quick_re has_braces_braces_re by blast+
  show ?thesis
  proof (cases "wteHandlerStack state")
    case Nil
    then show ?thesis using q b by (simp add: escapeWikiText_def)
  next
    case (Cons h hs)
    show ?thesis
    proof (cases "call_escaper (last (wteHandlerStack state)) state text opts")
      case (Inl e)
      then have "e = TypeError" by (rule call_escaper_TypeError)
      with Inl Cons show ?thesis using q b by (simp add: escapeWikiText_def)
    next
      case (Inr v)
      with Cons show ?thesis using q b by (cases v) (simp_all add: escapeWikiText_def)
    qed
  qed
qed

lemma ms_nl_item:
  "j \<in> set (ms (Seq (Opt (lit CR)) (lit LF)) s i) \<Longrightarrow> nl_step s i j"
  by (auto simp: Opt_def lit_def nl_step_def LF_def CR_def split: if_splits)

lemma repeat_greedy_chain:
  assumes "\<And>a b. b \<in> set (m a) \<Longrightarrow> a < b \<Longrightarrow> R a b"
  shows "j \<in> set (repeat_greedy m n i) \<Longrightarrow> R\<^sup>*\<^sup>* i j"
proof (induction n arbitrary: i)
  case 0
  then show ?case by simp
next
  case (Suc n)
  from Suc.prems consider "j = i" | k where "k \<in> set (m i)" "i < k" "j \<in> set (repeat_greedy m n k)"
    by auto
  then show ?case
  proof cases
    case 1
    then show ?thesis by simp
  next
    case 2
    then have "R i k" using assms by blast
    moreover have "R\<^sup>*\<^sup>* k j" using Suc.IH 2(3) by blast
    ultimately show ?thesis by (rule converse_rtranclp_into_rtranclp)
  qed
qed

lemma nl_chain_run:
  "(nl_step s)\<^sup>*\<^sup>* i j \<Longrightarrow> j = length s \<Longrightarrow> newline_run (drop i s)"
proof (induction rule: converse_rtranclp_induct)
  case base
  then show ?case by simp
next
  case (step a b)
  then have run: "newline_run (drop b s)" by blast
  from step(1) show ?case
    unfolding nl_step_def
  proof (elim disjE conjE)
    assume a: "a < length s" "s ! a = LF" "b = Suc a"
    then have d: "drop a s = LF # drop b s" by (metis Cons_nth_drop_Suc)
    show ?thesis
    proof (cases "drop b s")
      case Nil
      then show ?thesis using d by simp
    next
      case (Cons x xs)
      then show ?thesis using d run by simp
    qed
  next
    assume a: "Suc a < length s" "s ! a = CR" "s ! Suc a = LF" "b = Suc (Suc a)"
    then have "drop a s = CR # drop (Suc a) s" by (metis Cons_nth_drop_Suc Suc_lessD)
    moreover have "drop (Suc a) s = LF # drop b s" using a by (metis Cons_nth_drop_Suc)
    ultimately have d: "drop a s = CR # LF # drop b s" by simp
    have "CR \<noteq> LF" by (simp add: CR_def LF_def)
    then show ?thesis using d run by simp
  qed
qed

lemma escaped_tail_run:
  assumes "ms (Seq escaped_tail_re Eol) s i \<noteq> []"
  shows "newline_run (drop i s)"
proof -
  from assms obtain j where j: "j \<in> set (ms escaped_tail_re s i)" and e: "ms Eol s j \<noteq> []"
    by (auto simp: concat_eq_Nil_conv)
  from e have jl: "j = length s" by (simp split: if_splits)
  have "(nl_step s)\<^sup>*\<^sup>* i j"
  proof (rule repeat_greedy_chain[where m = "ms (Seq (Opt (lit CR)) (lit LF)) s"
                                    and n = "length s - i"])
    fix a b
    assume "b \<in> set (ms (Seq (Opt (lit CR)) (lit LF)) s a)"
    then show "nl_step s a b" by (rule ms_nl_item)
  next
    show "j \<in> set (repeat_greedy (ms (Seq (Opt (lit CR)) (lit LF)) s) (length s - i) i)"
      using j by (simp add: escaped_tail_re_def)
  qed
  then show ?thesis using jl by (rule nl_chain_run)
qed

lemma escapedText_wrapped:
  assumes "escapedText text = Inr r"
  shows "\<exists>h t. text = h @ t \<and> newline_run t \<and> r = ''<nowiki>'' @ h @ ''</nowiki>'' @ t"
proof -
  from assms obtain h t where m: "match_two escaped_head_re escaped_tail_re text = Some (h, t)"
    and r: "r = ''<nowiki>'' @ h @ ''</nowiki>'' @ t"
    by (auto simp: escapedText_def split: option.splits)
  from m obtain i rest where
    f: "filter (\<lambda>i. ms (Seq escaped_tail_re Eol) text i \<noteq> []) (ms escaped_head_re text 0) = i # rest"
    and h: "h = take i text" and t: "t = drop i text"
    by (auto simp: match_two_def split: list.splits)
  from f have "i \<in> set (filter (\<lambda>i. ms (Seq escaped_tail_re Eol) text i \<noteq> []) (ms escaped_head_re text 0))"
    by (metis list.set_intros(1))
  then have "ms (Seq escaped_tail_re Eol) text i \<noteq> []" by simp
  then have "newline_run t" unfolding t by (rule escaped_tail_run)
  moreover have "text = h @ t" by (simp add: h t)
  ultimately show ?thesis using r by blast
qed

text \<open>Whenever \<open>escapeWikiText\<close> returns for a text with a template marker, it returns
  the wrapped form: the text is split into a head and a run of newlines, the head is
  enclosed in \<open>nowiki\<close> tags and the newlines follow.\<close>

lemma escapeWikiText_braces_wrapped:
  assumes "has_braces text" and "fst (escapeWikiText P state text opts) = Inr r"
  shows "\<exists>h t. text = h @ t \<and> newline_run t \<and> r = ''<nowiki>'' @ h @ ''</nowiki>'' @ t"
proof -
  from escapeWikiText_braces[OF assms(1), of P state opts] assms(2)
  have "escapedText text = Inr r" by auto
  then show ?thesis by (rule escapedText_wrapped)
qed

lemma escapedText_CR: "escapedText (''{{'' @ [CR]) = Inl TypeError"
  by code_simp

lemma has_braces_CR: "has_braces (''{{'' @ [CR])"
proof -
  have "occurs_at ''{{'' (''{{'' @ [CR]) 0" by (simp add: occurs_at_def)
  then show ?thesis unfolding has_braces_def contains_def by blast
qed

text \<open>
  Claim C5 asks that every text containing a template marker comes back wrapped. The
  pattern of \<open>escapedText\<close> does not match a text that ends in a carriage return
  which no line feed follows, so for the text \<open>{{\r\<close> the match is \<open>null\<close> and
  \<open>escapeWikiText\<close> throws a \<open>TypeError\<close>, in every state.
\<close>

theorem escapeWikiText_trailing_CR:
  "fst (escapeWikiText P state (''{{'' @ [CR]) opts) = Inl TypeError"
  using escapeWikiText_braces[OF has_braces_CR, of P state opts] escapedText_CR by auto

section \<open>Emitting separators and output\<close>

lemma escapeWikiText_out: "out (snd (escapeWikiText P state txt opts)) = out state"
  by (auto simp: escapeWikiText_def Let_def split: list.splits sum.splits bool.splits prod.splits)

lemma recordNode_out: "out (recordNode node state) = out state"
  by (simp add: recordNode_def resetCurrLine_def Let_def)

lemma escapeRes_out: "out (snd (escapeRes P res node state)) = out state"
proof (cases "escapeText state")
  case False
  then show ?thesis by (simp add: escapeRes_def)
next
  case True
  let ?oo = "Some \<lparr>o_node = nodeId node, isLastChild = \<not> hasNextSibling node\<rparr>"
  obtain r s where e: "escapeWikiText P state res ?oo = (r, s)"
    by (cases "escapeWikiText P state res ?oo")
  then have "out s = out state" using escapeWikiText_out[of P state res ?oo] by simp
  then show ?thesis using True e by (cases r) (simp_all add: escapeRes_def)
qed

lemma outputRes_out: "out (outputRes origRes res node state) = out state @ [(res, node)]"
  by (simp add: outputRes_def cb_out_def Let_def)

lemma emitOutput_out:
  "\<exists>rest. out (snd (emitOutput P res node state)) = out state @ rest"
proof -
  obtain r s where e: "escapeRes P res node (recordNode node state) = (r, s)"
    by (cases "escapeRes P res node (recordNode node state)")
  then have "out s = out state"
    using escapeRes_out[of P res node "recordNode node state"] recordNode_out by simp
  then show ?thesis using e by (cases r) (simp_all add: emitOutput_def outputRes_out)
qed

lemma emitSep_out: "out (emitSep s node state) = out state @ [(s, node)]"
  by (simp add: emitSep_def Let_def cb_out_def)

text \<open>
  Claim C1. Let the previous and the current node both be marked unmodified, the previous
  node and the current node have \<open>dsr\<close> arrays, and the page have a source. If the
  source between the previous node's \<open>dsr[1]\<close> and the current node's \<open>dsr[0]\<close> is
  a valid separator, \<open>emitSepAndOutput\<close> emits exactly this text as the separator: it
  is the chunk that follows what was put out before. Only if it is not a valid separator
  the separator comes from \<open>emitSeparator\<close>.
\<close>

theorem emitSepAndOutput_orig_sep:
  assumes "prevNodeUnmodified state" and "currNodeUnmodified state"
    and "prevNode state = Some prev" and "dsr prev = Some dsrA" and "dsr node = Some dsrB"
    and "page_src state = Some source"
  shows "(isValidSep (js_substring source (dsr_at dsrA 1) (dsr_at dsrB 0)) \<longrightarrow>
            emitSepAndOutput P res node state =
              emitOutput P res node
                (emitSep (js_substring source (dsr_at dsrA 1) (dsr_at dsrB 0)) node state)
          \<and> (\<exists>rest. out (snd (emitSepAndOutput P res node state)) =
                 out state @ (js_substring source (dsr_at dsrA 1) (dsr_at dsrB 0), node) # rest))
       \<and> (\<not> isValidSep (js_substring source (dsr_at dsrA 1) (dsr_at dsrB 0)) \<longrightarrow>
            emitSepAndOutput P res node state =
              emitOutput P res node (emitSeparator P state node))"
proof -
  let ?o = "js_substring source (dsr_at dsrA 1) (dsr_at dsrB 0)"
  have f: "emitSepFirst P node state =
             Inr (if isValidSep ?o then emitSep ?o node state else emitSeparator P state node)"
    using assms by (simp add: emitSepFirst_def getOrigSrc_def)
  have inv: "\<not> isValidSep ?o \<Longrightarrow>
               emitSepAndOutput P res node state = emitOutput P res node (emitSeparator P state node)"
    using f by (simp add: emitSepAndOutput_def)
  have val: "isValidSep ?o \<Longrightarrow>
               emitSepAndOutput P res node state = emitOutput P res node (emitSep ?o node state)"
    using f by (simp add: emitSepAndOutput_def)
  have pre: "isValidSep ?o \<Longrightarrow>
               \<exists>rest. out (snd (emitSepAndOutput P res node state)) = out state @ (?o, node) # rest"
  proof -
    assume v: "isValidSep ?o"
    from emitOutput_out[of P res node "emitSep ?o node state"] obtain rest where
      "out (snd (emitOutput P res node (emitSep ?o node state))) = out (emitSep ?o node state) @ rest"
      by blast
    then show ?thesis using val[OF v] by (simp add: emitSep_out)
  qed
  show ?thesis using inv val pre by blast
qed

lemma ex_valid: "isValidSep [LF, LF]"
  by code_simp

lemma ex_invalid: "\<not> isValidSep ''XY''"
  by code_simp

theorem emitSepAndOutput_orig_sep_witness:
  "out (snd (emitSepAndOutput ex_params ''b'' ex_curr ex_selser_state))
     = [(''a'', ex_prev), ([LF, LF], ex_curr), (''b'', ex_curr)]
   \<and> out (snd (emitSepAndOutput ex_params ''b'' ex_curr
                  (ex_selser_state\<lparr>page_src := Some ''aXYb''\<rparr>)))
     = [(''a'', ex_prev), (''b'', ex_curr)]"
proof -
  have s: "js_substring (''a'' @ [LF, LF] @ ''b'') (dsr_at [Num 0, Num 1, Num 0, Num 0] 1)
             (dsr_at [Num 3, Num 4, Num 0, Num 0] 0) = [LF, LF]"
    by (simp add: js_substring_def dsr_at_def to_integer_def Let_def)
  have "emitSepAndOutput ex_params ''b'' ex_curr ex_selser_state =
          emitOutput ex_params ''b'' ex_curr (emitSep [LF, LF] ex_curr ex_selser_state)"
    using emitSepAndOutput_orig_sep
            [of ex_selser_state ex_prev "[Num 0, Num 1, Num 0, Num 0]" ex_curr
                "[Num 3, Num 4, Num 0, Num 0]" "''a'' @ [LF, LF] @ ''b''" ex_params "''b''"]
          ex_valid
    unfolding s by (simp add: ex_selser_state_def ex_prev_def ex_curr_def initialState_def)
  then have "out (snd (emitSepAndOutput ex_params ''b'' ex_curr ex_selser_state)) =
          out (snd (emitOutput ex_params ''b'' ex_curr
                      (emitSep [LF, LF] ex_curr ex_selser_state)))"
    by simp
  also have "\<dots> = [(''a'', ex_prev), ([LF, LF], ex_curr), (''b'', ex_curr)]"
    by (simp add: emitOutput_def escapeRes_def recordNode_def outputRes_def resetCurrLine_def
          emitSep_def cb_out_def ex_selser_state_def initialState_def Let_def empty_sep_def
          rx_test_def rx_exec_def lit_def)
  finally have first:
    "out (snd (emitSepAndOutput ex_params ''b'' ex_curr ex_selser_state))
       = [(''a'', ex_prev), ([LF, LF], ex_curr), (''b'', ex_curr)]" .
  let ?st = "ex_selser_state\<lparr>page_src := Some ''aXYb''\<rparr>"
  have s2: "js_substring ''aXYb'' (dsr_at [Num 0, Num 1, Num 0, Num 0] 1)
             (dsr_at [Num 3, Num 4, Num 0, Num 0] 0) = ''XY''"
    by (simp add: js_substring_def dsr_at_def to_integer_def Let_def)
  have "emitSepAndOutput ex_params ''b'' ex_curr ?st =
          emitOutput ex_params ''b'' ex_curr (emitSeparator ex_params ?st ex_curr)"
    using emitSepAndOutput_orig_sep
            [of ?st ex_prev "[Num 0, Num 1, Num 0, Num 0]" ex_curr
                "[Num 3, Num 4, Num 0, Num 0]" "''aXYb''" ex_params "''b''"]
          ex_invalid
    unfolding s2 by (simp add: ex_selser_state_def ex_prev_def ex_curr_def initialState_def)
  then have "out (snd (emitSepAndOutput ex_params ''b'' ex_curr ?st)) =
          out (snd (emitOutput ex_params ''b'' ex_curr (emitSeparator ex_params ?st ex_curr)))"
    by simp
  also have "\<dots> = [(''a'', ex_prev), (''b'', ex_curr)]"
    by (simp add: emitOutput_def escapeRes_def recordNode_def outputRes_def resetCurrLine_def
          emitSeparator_def ex_params_def truthy_def cb_out_def ex_selser_state_def
          initialState_def Let_def empty_sep_def)
  finally have second:
    "out (snd (emitSepAndOutput ex_params ''b'' ex_curr ?st))
       = [(''a'', ex_prev), (''b'', ex_curr)]" .
  from first second show ?thesis by simp
qed

section \<open>The handler of \<open>br\<close>\<close>

text \<open>
  Claim C6, as the code has it. For a \<open>br\<close> whose \<open>stx\<close> is not \<open>html\<close> and
  whose parent is a \<open>p\<close>, the handler calls the callback with the empty string. Before
  it does, it sets the pending separator constraints to \<open>min = 2, max = 2\<close> if
  constraints are pending with a \<open>min\<close> of 2 and the \<open>br\<close> is the only child of its
  parent; otherwise it leaves the state as it is.
\<close>

theorem br_handle_in_p:
  assumes "stx node \<noteq> Some ''html''" and "parentNode node = Some parent"
    and "p_nodeName parent = ''P''"
  shows "br_handle node state cb' =
           cb' [] node (if p_br_pair state parent then forced_2_2 state else state)
       \<and> (p_br_pair state parent \<longrightarrow>
           (\<exists>c. constraints (sep (forced_2_2 state)) = Some c
                \<and> cmin c = Some 2 \<and> cmax c = Some 2))"
  using assms
  by (auto simp: br_handle_def p_br_pair_def forced_2_2_def split: option.splits)

theorem br_handle_in_p_witness:
  "br_handle ex_only_br (ex_pending (Some 2) None) cb_record =
     (None, (ex_pending (Some 2) (Some 2))\<lparr>out := [([], ex_only_br)]\<rparr>)
   \<and> br_handle ex_br (ex_pending None (Some 2)) cb_record =
     (None, (ex_pending None (Some 2))\<lparr>out := [([], ex_br)]\<rparr>)"
  using br_handle_in_p[of ex_only_br "\<lparr>p_nodeName = ''P'', p_childCount = 1, p_isBlockNode = True\<rparr>"
                            "ex_pending (Some 2) None" cb_record]
        br_handle_in_p[of ex_br "\<lparr>p_nodeName = ''P'', p_childCount = 3, p_isBlockNode = True\<rparr>"
                            "ex_pending None (Some 2)" cb_record]
  by (simp add: ex_only_br_def ex_br_def ex_pending_def p_br_pair_def forced_2_2_def
        cb_record_def cb_out_def initialState_def empty_sep_def)

text \<open>
  Claim C6 as stated fails for a \<open>br\<close> between two text nodes of a paragraph, where
  the pending constraints have no \<open>min\<close>: the empty string is emitted, and the
  constraints are not set to \<open>min = 2\<close>.
\<close>

theorem br_handle_counterexample:
  "stx ex_br \<noteq> Some ''html''
   \<and> map_option p_nodeName (parentNode ex_br) = Some ''P''
   \<and> out (snd (br_handle ex_br (ex_pending None (Some 2)) cb_record)) = [([], ex_br)]
   \<and> map_option cmin (constraints (sep (snd (br_handle ex_br (ex_pending None (Some 2)) cb_record))))
       = Some None
   \<and> map_option cmin (constraints (sep (snd (br_handle ex_br (ex_pending None (Some 2)) cb_record))))
       \<noteq> Some (Some 2)"
  by (simp add: br_handle_def ex_br_def ex_pending_def cb_record_def cb_out_def
        initialState_def empty_sep_def)

section \<open>The traversal: handler stack and exceptions\<close>






















lemma keeps_frame_left: "frame s s1 \<Longrightarrow> keeps s1 res \<Longrightarrow> keeps s res"
  by (auto simp: keeps_def frame_def caught_count_def)

lemma keeps_frame_right: "keeps s (r, s1) \<Longrightarrow> frame s1 s2 \<Longrightarrow> keeps s (r, s2)"
  by (auto simp: keeps_def frame_def caught_count_def)

lemma keeps_throw: "keeps s (r, s1) \<Longrightarrow> keeps s (Some e, s1)"
  by (auto simp: keeps_def)













end
